theory Spec2Isabelle
  imports Complex_Main
begin

section \<open>Solar system simulator: the simulation and scaling engine of main.py\<close>

text \<open>
  Numbers. The source computes with Python and numpy floats; the model computes with
  \<^typ>\<open>real\<close>, so every statement below is about the exact arithmetic that the floats
  approximate. A Python exception is a value of \<open>error\<close>; a numpy result that is not a
  finite real number (\<open>-inf\<close>, \<open>nan\<close>) or a Python result that is a complex number is a
  value of \<open>nonreal\<close>.
\<close>

datatype error = ZeroDivisionError

datatype nonreal = NegInfinity | NotANumber | ComplexNumber

type_synonym vec3 = "real \<times> real \<times> real"

subsection \<open>CelestialBody\<close>

record CelestialBody =
  name :: string
  radius :: real
  distance :: real
  orbital_period :: real
  color :: string
  tilt :: real
  angle :: real
  position :: vec3

text \<open>\<open>np.radians\<close>: degrees to radians.\<close>

definition np_radians :: "real \<Rightarrow> real" where
  "np_radians d = d * pi / 180"

text \<open>
  \<open>np.random.uniform(low, high)\<close> computes \<open>low + (high - low) * u\<close> from a sample
  \<open>u\<close> of the generator's \<open>random_sample\<close>, which lies in \<open>[0, 1)\<close>. The sample is
  an input of the model.
\<close>

definition np_random_uniform :: "real \<Rightarrow> real \<Rightarrow> real \<Rightarrow> real" where
  "np_random_uniform low high u = low + (high - low) * u"

text \<open>
  \<open>CelestialBody.__init__(name, radius, distance, orbital_period, color, tilt)\<close>; the
  last argument is the generator's sample for the starting angle.
\<close>

definition CelestialBody_init ::
  "string \<Rightarrow> real \<Rightarrow> real \<Rightarrow> real \<Rightarrow> string \<Rightarrow> real \<Rightarrow> real \<Rightarrow> CelestialBody" where
  "CelestialBody_init n r d p c t u =
     \<lparr> name = n, radius = r, distance = d, orbital_period = p, color = c,
       tilt = np_radians t,
       angle = np_random_uniform 0 (2 * pi) u,
       position = (0, 0, 0) \<rparr>"

text \<open>
  \<open>update_position(self, time_step)\<close>: the division \<open>(2 * np.pi) / self.orbital_period\<close>
  is a division of Python numbers and raises \<open>ZeroDivisionError\<close> for a period of 0. The
  result is the mutated body together with the returned position.
\<close>

definition update_position :: "CelestialBody \<Rightarrow> real \<Rightarrow> error + (CelestialBody \<times> vec3)" where
  "update_position self time_step =
     (if orbital_period self = 0 then Inl ZeroDivisionError
      else
        let angular_velocity = (2 * pi) / orbital_period self;
            angle' = angle self + angular_velocity * time_step;
            x = distance self * cos angle';
            y = distance self * sin angle';
            z = y * sin (tilt self);
            y = y * cos (tilt self);
            position' = (x, y, z)
        in Inr (self\<lparr>angle := angle', position := position'\<rparr>, position'))"

subsection \<open>SolarSystem\<close>

record SolarSystem =
  scale_mode :: string
  time_step :: real
  bodies :: "CelestialBody list"
  trails :: "string \<rightharpoonup> vec3 list"
  trail_length :: nat
  paused :: bool
  show_orbits :: bool
  show_labels :: bool

text \<open>The catalogue \<open>bodies_data\<close> of \<open>_initialize_bodies\<close>.\<close>

type_synonym body_data = "string \<times> real \<times> real \<times> real \<times> string \<times> real"

definition bodies_data :: "body_data list" where
  "bodies_data =
     [ (''Sun'', 696000, 0, 0, ''#FDB813'', 0),
       (''Mercury'', 2440, 0.39, 88, ''#8C7853'', 7.0),
       (''Venus'', 6052, 0.72, 225, ''#FFC649'', 3.4),
       (''Earth'', 6371, 1.0, 365, ''#4169E1'', 0.0),
       (''Mars'', 3390, 1.52, 687, ''#CD5C5C'', 1.9),
       (''Jupiter'', 69911, 5.20, 4333, ''#DAA520'', 1.3),
       (''Saturn'', 58232, 9.54, 10759, ''#F4A460'', 2.5),
       (''Uranus'', 25362, 19.19, 30687, ''#4FD0E0'', 0.8),
       (''Neptune'', 24622, 30.07, 60190, ''#4169E1'', 1.8) ]"

text \<open>
  The loop of \<open>_initialize_bodies\<close> over a list of catalogue entries. \<open>rng\<close> gives
  the generator's samples in the order they are drawn, \<open>k\<close> counts the draws so far;
  the loop appends to \<open>self.bodies\<close> and adds an empty trail for every name but \<open>Sun\<close>.
\<close>

fun initialize_loop ::
  "body_data list \<Rightarrow> (nat \<Rightarrow> real) \<Rightarrow> nat \<Rightarrow> CelestialBody list \<Rightarrow> (string \<rightharpoonup> vec3 list)
     \<Rightarrow> CelestialBody list \<times> (string \<rightharpoonup> vec3 list)" where
  "initialize_loop [] rng k bs tr = (bs, tr)"
| "initialize_loop ((n, r, d, p, c, t) # ds) rng k bs tr =
     (let body = CelestialBody_init n r d p c t (rng k)
      in initialize_loop ds rng (Suc k) (bs @ [body])
           (if name body \<noteq> ''Sun'' then tr(name body \<mapsto> []) else tr))"

text \<open>
  \<open>_initialize_bodies(self)\<close>: the loop over \<open>bodies_data\<close>, started with the empty
  body list and the empty \<open>trails\<close> dictionary of \<open>__init__\<close>.
\<close>

definition initialize_bodies :: "(nat \<Rightarrow> real) \<Rightarrow> CelestialBody list \<times> (string \<rightharpoonup> vec3 list)" where
  "initialize_bodies rng = initialize_loop bodies_data rng 0 [] Map.empty"

text \<open>
  \<open>SolarSystem.__init__(self, scale_mode)\<close>; the second argument gives the samples of
  the generator that the bodies draw.
\<close>

definition SolarSystem_init :: "string \<Rightarrow> (nat \<Rightarrow> real) \<Rightarrow> SolarSystem" where
  "SolarSystem_init mode rng =
     (let (bs, tr) = initialize_bodies rng
      in \<lparr> scale_mode = mode, time_step = 1, bodies = bs, trails = tr,
           trail_length = 100, paused = False, show_orbits = True, show_labels = True \<rparr>)"

text \<open>
  The trail update of \<open>update\<close>: \<open>append\<close> the point, then \<open>pop(0)\<close> when the
  list is longer than \<open>trail_length\<close>.
\<close>

definition trail_append :: "nat \<Rightarrow> vec3 list \<Rightarrow> vec3 \<Rightarrow> vec3 list" where
  "trail_append cap trail p =
     (let trail' = trail @ [p]
      in if length trail' > cap then tl trail' else trail')"

text \<open>
  The loop \<open>for body in self.bodies[1:]\<close> of \<open>update\<close>. An exception leaves the
  loop; the model then returns the exception only.
\<close>

fun update_loop ::
  "real \<Rightarrow> nat \<Rightarrow> CelestialBody list \<Rightarrow> (string \<rightharpoonup> vec3 list)
     \<Rightarrow> error + (CelestialBody list \<times> (string \<rightharpoonup> vec3 list))" where
  "update_loop dt cap [] tr = Inr ([], tr)"
| "update_loop dt cap (body # rest) tr =
     (case update_position body dt of
        Inl e \<Rightarrow> Inl e
      | Inr (body', pos) \<Rightarrow>
          let tr' = (case tr (name body') of
                       None \<Rightarrow> tr
                     | Some trail \<Rightarrow> tr(name body' \<mapsto> trail_append cap trail (position body')))
          in (case update_loop dt cap rest tr' of
                Inl e \<Rightarrow> Inl e
              | Inr (rest', tr'') \<Rightarrow> Inr (body' # rest', tr'')))"

text \<open>\<open>update(self, frame)\<close>; \<open>self.bodies[1:]\<close> of an empty list is empty.\<close>

definition update :: "SolarSystem \<Rightarrow> nat \<Rightarrow> error + SolarSystem" where
  "update self frame =
     (if \<not> paused self then
        (case update_loop (time_step self) (trail_length self) (drop 1 (bodies self)) (trails self) of
           Inl e \<Rightarrow> Inl e
         | Inr (bs, tr) \<Rightarrow> Inr (self\<lparr>bodies := take 1 (bodies self) @ bs, trails := tr\<rparr>))
      else Inr self)"

text \<open>Successive calls of \<open>update\<close>, one per frame; the first exception ends the run.\<close>

fun updates :: "SolarSystem \<Rightarrow> nat list \<Rightarrow> error + SolarSystem" where
  "updates self [] = Inr self"
| "updates self (frame # frames) =
     (case update self frame of Inl e \<Rightarrow> Inl e | Inr self' \<Rightarrow> updates self' frames)"

subsection \<open>Scaling\<close>

text \<open>
  \<open>np.log10\<close>: \<open>-inf\<close> at 0 and \<open>nan\<close> below 0 (each with a warning, not an
  exception).
\<close>

definition np_log10 :: "real \<Rightarrow> nonreal + real" where
  "np_log10 x =
     (if x > 0 then Inr (log 10 x) else if x = 0 then Inl NegInfinity else Inl NotANumber)"

text \<open>
  Python's \<open>x ** y\<close> for a positive exponent that is not an integer (\<open>0.7\<close> in the
  source): a negative base gives a complex number, \<open>0 ** y\<close> is 0.
\<close>

definition py_pow :: "real \<Rightarrow> real \<Rightarrow> nonreal + real" where
  "py_pow x y = (if x < 0 then Inl ComplexNumber else Inr (x powr y))"

text \<open>\<open>get_scaled_radius(self, radius)\<close>; arithmetic on \<open>-inf\<close> and \<open>nan\<close> keeps them.\<close>

definition get_scaled_radius :: "SolarSystem \<Rightarrow> real \<Rightarrow> nonreal + real" where
  "get_scaled_radius self r =
     (if scale_mode self = ''realistic'' then Inr (r / 100000)
      else if scale_mode self = ''logarithmic'' then
        (case np_log10 r of Inl n \<Rightarrow> Inl n | Inr l \<Rightarrow> Inr (0.02 + l * 0.01))
      else Inr (0.05 + (r / 100000) * 2))"

text \<open>\<open>get_scaled_distance(self, distance)\<close>.\<close>

definition get_scaled_distance :: "SolarSystem \<Rightarrow> real \<Rightarrow> nonreal + real" where
  "get_scaled_distance self d =
     (if scale_mode self = ''realistic'' then Inr d
      else if scale_mode self = ''logarithmic'' then
        (if d = 0 then Inr 0
         else (case np_log10 (d * 10 + 1) of Inl n \<Rightarrow> Inl n | Inr l \<Rightarrow> Inr (l * 3)))
      else (case py_pow d 0.7 of Inl n \<Rightarrow> Inl n | Inr v \<Rightarrow> Inr (v * 5)))"

text \<open>
  The display position of \<open>draw_frame\<close>: \<open>scaled_pos = pos * np.array([k, k, k])\<close> with
  \<open>k = self.get_scaled_distance(1) / 1\<close>.
\<close>

definition scaled_pos :: "SolarSystem \<Rightarrow> vec3 \<Rightarrow> nonreal + vec3" where
  "scaled_pos self pos =
     (case get_scaled_distance self 1 of
        Inl n \<Rightarrow> Inl n
      | Inr k \<Rightarrow> (case pos of (x, y, z) \<Rightarrow> Inr (x * (k / 1), y * (k / 1), z * (k / 1))))"

text \<open>Two results are finite real numbers, the first at most the second.\<close>

definition finite_le :: "nonreal + real \<Rightarrow> nonreal + real \<Rightarrow> bool" where
  "finite_le a b =
     (case a of Inl m \<Rightarrow> False | Inr x \<Rightarrow> (case b of Inl n \<Rightarrow> False | Inr y \<Rightarrow> x \<le> y))"

text \<open>The radii and the distances of the catalogue.\<close>

definition catalog_radii :: "real set" where
  "catalog_radii = set (map (\<lambda>(n, r, d, p, c, t). r) bodies_data)"

definition catalog_distances :: "real set" where
  "catalog_distances = set (map (\<lambda>(n, r, d, p, c, t). d) bodies_data)"

subsection \<open>Controls\<close>

text \<open>The callbacks of \<open>visualize_interactive\<close> that change the simulation state.\<close>

definition toggle_pause :: "SolarSystem \<Rightarrow> SolarSystem" where
  "toggle_pause self = self\<lparr>paused := \<not> paused self\<rparr>"

text \<open>
  \<open>update_speed(val)\<close> stores \<open>slider_speed.val\<close>, the slider's current value, which
  is the first argument here; the callback's own argument \<open>val\<close> is not read.
\<close>

definition update_speed :: "real \<Rightarrow> real \<Rightarrow> SolarSystem \<Rightarrow> SolarSystem" where
  "update_speed slider_speed_val val self = self\<lparr>time_step := slider_speed_val\<rparr>"

text \<open>
  The speed slider as \<open>visualize_interactive\<close> constructs it:
  \<open>Slider(ax_speed, 'Speed', 0.1, 10.0, valinit=1.0, color='skyblue', valstep=0.1)\<close>;
  \<open>slider_val\<close> is the widget's attribute \<open>val\<close>.
\<close>

record Slider =
  valmin :: real
  valmax :: real
  valinit :: real
  valstep :: real
  slider_val :: real

definition slider_speed :: Slider where
  "slider_speed =
     \<lparr> valmin = 0.1, valmax = 10.0, valinit = 1.0, valstep = 0.1, slider_val = 1.0 \<rparr>"

text \<open>
  Modelled from the spec: what the slider widget (\<open>matplotlib.widgets.Slider\<close>, which is
  not under \<open>src/\<close>) does with a value asked of it. The specification says of
  \<open>set_speed(v)\<close> that it "clamps/accepts v in [0.1, 10.0]" and of a value outside the
  range that it is "clamped, not rejected": the widget bounds the value by its \<open>valmin\<close>
  and \<open>valmax\<close> and stores it in \<open>val\<close>.
\<close>

definition slider_request :: "Slider \<Rightarrow> real \<Rightarrow> Slider" where
  "slider_request slider v =
     slider\<lparr>slider_val := max (valmin slider) (min (valmax slider) v)\<rparr>"

text \<open>
  \<open>set_speed(v)\<close> of the specification: the slider takes the value and then runs the
  callback registered by \<open>slider_speed.on_changed(update_speed)\<close> with its stored value.
\<close>

definition set_speed :: "Slider \<Rightarrow> real \<Rightarrow> SolarSystem \<Rightarrow> Slider \<times> SolarSystem" where
  "set_speed slider v self =
     (let slider' = slider_request slider v
      in (slider', update_speed (slider_val slider') (slider_val slider') self))"

text \<open>
  The choice of the scale mode in \<open>main\<close>: \<open>scale_modes.get(choice, 'logarithmic')\<close>
  on the stripped input line.
\<close>

definition scale_modes :: "(string \<times> string) list" where
  "scale_modes =
     [(''1'', ''realistic''), (''2'', ''logarithmic''), (''3'', ''artistic''), ('''', ''logarithmic'')]"

definition main_scale_mode :: "string \<Rightarrow> string" where
  "main_scale_mode choice =
     (case map_of scale_modes choice of Some m \<Rightarrow> m | None \<Rightarrow> ''logarithmic'')"

text \<open>
  What the animation and the widgets do to the simulation state, one event at a time:
  \<open>draw_frame\<close> calls \<open>update\<close>, the pause button calls \<open>toggle_pause\<close>, the
  slider calls \<open>update_speed\<close> with its new value.
\<close>

datatype event = Frame nat | PauseClicked | SpeedChanged real

fun handle_event :: "SolarSystem \<Rightarrow> event \<Rightarrow> error + SolarSystem" where
  "handle_event self (Frame frame) = update self frame"
| "handle_event self PauseClicked = Inr (toggle_pause self)"
| "handle_event self (SpeedChanged v) = Inr (update_speed v v self)"

fun run :: "SolarSystem \<Rightarrow> event list \<Rightarrow> error + SolarSystem" where
  "run self [] = Inr self"
| "run self (e # es) =
     (case handle_event self e of Inl err \<Rightarrow> Inl err | Inr self' \<Rightarrow> run self' es)"

text \<open>A trail after a sequence of points has been pushed, each as \<open>update\<close> does it.\<close>

definition trail_pushes :: "nat \<Rightarrow> vec3 list \<Rightarrow> vec3 list \<Rightarrow> vec3 list" where
  "trail_pushes cap trail ps = foldl (trail_append cap) trail ps"

text \<open>
  The positions that the body at index \<open>i\<close> takes in successive calls of \<open>update\<close>,
  oldest first: what the calls offer to its trail.
\<close>

fun position_history :: "SolarSystem \<Rightarrow> nat list \<Rightarrow> nat \<Rightarrow> vec3 list" where
  "position_history self [] i = []"
| "position_history self (frame # frames) i =
     (case update self frame of
        Inl e \<Rightarrow> []
      | Inr self' \<Rightarrow> position (bodies self' ! i) # position_history self' frames i)"

text \<open>
  The state that the proofs below carry through a run: the first body is \<open>sun\<close>, every
  other body has a period that is not 0, no trail is kept under the name \<open>Sun\<close>, and
  no trail is longer than the capacity.
\<close>

definition run_invariant :: "CelestialBody \<Rightarrow> SolarSystem \<Rightarrow> bool" where
  "run_invariant sun self \<longleftrightarrow>
     take 1 (bodies self) = [sun]
     \<and> list_all (\<lambda>b. orbital_period b \<noteq> 0) (drop 1 (bodies self))
     \<and> trails self ''Sun'' = None
     \<and> (\<forall>nm t. trails self nm = Some t \<longrightarrow> length t \<le> trail_length self)"

text \<open>Two generators for concrete systems: every sample 0, every sample 1/2.\<close>

definition rng_zero :: "nat \<Rightarrow> real" where
  "rng_zero k = 0"

definition rng_half :: "nat \<Rightarrow> real" where
  "rng_half k = 1 / 2"

section \<open>Position update\<close>

text \<open>
  C1. For a body with \<open>orbital_period > 0\<close> and a time step \<open>dt \<ge> 0\<close>,
  \<open>update_position\<close> sets the angle to \<open>angle + (2\<pi> / orbital_period) * dt\<close>, and sets
  and returns the position \<open>(x, y, z)\<close> with \<open>x = distance * cos angle'\<close>,
  \<open>y = distance * sin angle' * cos tilt\<close>, \<open>z = distance * sin angle' * sin tilt\<close>.
\<close>

theorem update_position_formula:
  assumes "orbital_period b > 0" and "dt \<ge> 0"
  defines "a \<equiv> angle b + (2 * pi / orbital_period b) * dt"
  defines "p \<equiv> (distance b * cos a, distance b * sin a * cos (tilt b), distance b * sin a * sin (tilt b))"
  shows "update_position b dt = Inr (b\<lparr>angle := a, position := p\<rparr>, p)"
  using assms(1) by (simp add: update_position_def Let_def a_def p_def)

theorem update_position_formula_witness:
  "update_position (CelestialBody_init ''Earth'' 6371 1 365 ''#4169E1'' 0 0) 365
     = Inr (CelestialBody_init ''Earth'' 6371 1 365 ''#4169E1'' 0 0
              \<lparr>angle := 2 * pi, position := (1, 0, 0)\<rparr>, (1, 0, 0))"
  using update_position_formula [of "CelestialBody_init ''Earth'' 6371 1 365 ''#4169E1'' 0 0" 365]
  by (simp add: CelestialBody_init_def np_radians_def np_random_uniform_def)

section \<open>Pausing\<close>

text \<open>
  C2. While the paused flag is set, any number of calls of \<open>update\<close> leaves the system
  unchanged: every body's angle and position and every trail.
\<close>

theorem paused_updates_unchanged:
  "paused s \<Longrightarrow> updates s frames = Inr s"
  by (induction frames) (simp_all add: update_def)

theorem paused_updates_unchanged_witness:
  "updates ((SolarSystem_init ''logarithmic'' rng_zero)\<lparr>paused := True\<rparr>) [0, 1, 2]
     = Inr ((SolarSystem_init ''logarithmic'' rng_zero)\<lparr>paused := True\<rparr>)"
  using paused_updates_unchanged
    [of "(SolarSystem_init ''logarithmic'' rng_zero)\<lparr>paused := True\<rparr>" "[0, 1, 2]"]
  by simp

section \<open>Scale modes\<close>

lemma scale_mode_init [simp]: "scale_mode (SolarSystem_init m rng) = m"
  by (simp add: SolarSystem_init_def case_prod_beta)

lemma log10_100000: "log 10 100000 = (5::real)"
  using log_pow_cancel [of 10 5] by simp

lemma log10_11_bound: "log 10 11 * 3 < (5::real)"
proof -
  have "log 10 11 * 3 = log 10 ((11::real) ^ 3)"
    using log_nat_power [of 11 10 3] by simp
  also have "\<dots> < log 10 (10 ^ 4)"
    by (subst log_less_cancel_iff) simp_all
  also have "\<dots> = 4"
    using log_pow_cancel [of 10 4] by simp
  finally show ?thesis by simp
qed

lemma radius_mono:
  assumes "0 < r1" "r1 \<le> r2"
  shows "finite_le (get_scaled_radius s r1) (get_scaled_radius s r2)"
  using assms by (simp add: get_scaled_radius_def np_log10_def finite_le_def)

lemma distance_mono:
  assumes "0 \<le> d1" "d1 \<le> d2"
  shows "finite_le (get_scaled_distance s d1) (get_scaled_distance s d2)"
  using assms by (auto simp add: get_scaled_distance_def np_log10_def py_pow_def powr_mono2 add_pos_nonneg finite_le_def)

lemma catalog_radii_eq: "catalog_radii = {2440, 3390, 6052, 6371, 24622, 25362, 58232, 69911, 696000}"
  by (auto simp: catalog_radii_def bodies_data_def)

lemma catalog_distances_eq: "catalog_distances = {0, 0.39, 0.72, 1.0, 1.52, 5.20, 9.54, 19.19, 30.07}"
  by (auto simp: catalog_distances_def bodies_data_def)

lemma catalog_radii_pos: "r \<in> catalog_radii \<Longrightarrow> 0 < r"
  by (auto simp: catalog_radii_eq)

lemma catalog_distances_nonneg: "d \<in> catalog_distances \<Longrightarrow> 0 \<le> d"
  by (auto simp: catalog_distances_eq)

text \<open>
  C8. In each of the three scale modes \<open>get_scaled_radius\<close> is non-decreasing over the
  radii of the catalogue and \<open>get_scaled_distance\<close> is non-decreasing over its distances,
  every value being a finite real number; the radii and the distances are the nine values
  of the catalogue each; logarithmic distance scaling of 0 is exactly 0.
\<close>

theorem scale_monotonic_on_catalog:
  assumes "scale_mode s \<in> {''realistic'', ''logarithmic'', ''artistic''}"
  shows "(\<forall>r1\<in>catalog_radii. \<forall>r2\<in>catalog_radii. r1 \<le> r2 \<longrightarrow>
            finite_le (get_scaled_radius s r1) (get_scaled_radius s r2))
       \<and> (\<forall>d1\<in>catalog_distances. \<forall>d2\<in>catalog_distances. d1 \<le> d2 \<longrightarrow>
            finite_le (get_scaled_distance s d1) (get_scaled_distance s d2))
       \<and> catalog_radii = {2440, 3390, 6052, 6371, 24622, 25362, 58232, 69911, 696000}
       \<and> catalog_distances = {0, 0.39, 0.72, 1.0, 1.52, 5.20, 9.54, 19.19, 30.07}
       \<and> (scale_mode s = ''logarithmic'' \<longrightarrow> get_scaled_distance s 0 = Inr 0)"
proof (intro conjI ballI impI)
  fix r1 r2 assume "r1 \<in> catalog_radii" "r1 \<le> r2"
  then show "finite_le (get_scaled_radius s r1) (get_scaled_radius s r2)"
    by (intro radius_mono catalog_radii_pos)
next
  fix d1 d2 assume "d1 \<in> catalog_distances" "d1 \<le> d2"
  then show "finite_le (get_scaled_distance s d1) (get_scaled_distance s d2)"
    by (intro distance_mono catalog_distances_nonneg)
next
  assume "scale_mode s = ''logarithmic''"
  then show "get_scaled_distance s 0 = Inr 0" by (simp add: get_scaled_distance_def)
qed (rule catalog_radii_eq catalog_distances_eq)+

theorem scale_monotonic_on_catalog_witness:
  "finite_le (get_scaled_radius (SolarSystem_init ''logarithmic'' rng_zero) 6371)
             (get_scaled_radius (SolarSystem_init ''logarithmic'' rng_zero) 69911)
   \<and> finite_le (get_scaled_distance (SolarSystem_init ''artistic'' rng_zero) 0)
             (get_scaled_distance (SolarSystem_init ''artistic'' rng_zero) 5.20)
   \<and> get_scaled_distance (SolarSystem_init ''logarithmic'' rng_zero) 0 = Inr 0"
proof -
  have lo: "scale_mode (SolarSystem_init ''logarithmic'' rng_zero)
              \<in> {''realistic'', ''logarithmic'', ''artistic''}"
    and ar: "scale_mode (SolarSystem_init ''artistic'' rng_zero)
              \<in> {''realistic'', ''logarithmic'', ''artistic''}"
    by simp_all
  note L = scale_monotonic_on_catalog [OF lo]
  note A = scale_monotonic_on_catalog [OF ar]
  have r: "(6371::real) \<in> catalog_radii" "(69911::real) \<in> catalog_radii"
    by (simp_all add: catalog_radii_def bodies_data_def)
  have d: "(0::real) \<in> catalog_distances" "(5.20::real) \<in> catalog_distances"
    by (simp_all add: catalog_distances_def bodies_data_def)
  have "finite_le (get_scaled_radius (SolarSystem_init ''logarithmic'' rng_zero) 6371)
             (get_scaled_radius (SolarSystem_init ''logarithmic'' rng_zero) 69911)"
    using L [THEN conjunct1, rule_format, OF r] by simp
  moreover have "finite_le (get_scaled_distance (SolarSystem_init ''artistic'' rng_zero) 0)
             (get_scaled_distance (SolarSystem_init ''artistic'' rng_zero) 5.20)"
    using A [THEN conjunct2, THEN conjunct1, rule_format, OF d] by simp
  moreover have "get_scaled_distance (SolarSystem_init ''logarithmic'' rng_zero) 0 = Inr 0"
    using L by simp
  ultimately show ?thesis by simp
qed

text \<open>
  C6, as stated: a scale mode outside the three names behaves as \<open>logarithmic\<close>. It
  does not: for the mode \<open>cinematic\<close> the radius 100000 is scaled to 2.05, not to 0.07,
  and the distance 1 to 5, not to \<open>3 * log10 11\<close>.
\<close>

theorem unknown_mode_not_logarithmic:
  "get_scaled_radius (SolarSystem_init ''cinematic'' rng_zero) 100000 = Inr 2.05
   \<and> get_scaled_radius (SolarSystem_init ''logarithmic'' rng_zero) 100000 = Inr 0.07
   \<and> get_scaled_distance (SolarSystem_init ''cinematic'' rng_zero) 1 = Inr 5
   \<and> get_scaled_distance (SolarSystem_init ''logarithmic'' rng_zero) 1 = Inr (log 10 11 * 3)
   \<and> get_scaled_distance (SolarSystem_init ''cinematic'' rng_zero) 1
       \<noteq> get_scaled_distance (SolarSystem_init ''logarithmic'' rng_zero) 1"
  using log10_11_bound
  by (simp add: get_scaled_radius_def get_scaled_distance_def np_log10_def py_pow_def
      log10_100000)

text \<open>
  C6, amended. Construction keeps any scale-mode string; a string outside the three
  names selects the last branch of both scaling functions, so the system behaves as in
  mode \<open>artistic\<close>. The fall-back to \<open>logarithmic\<close> is that of \<open>main\<close>'s menu: a
  choice that is no key of \<open>scale_modes\<close> gives \<open>logarithmic\<close>, and \<open>main\<close> passes
  one of the three names in every case.
\<close>

theorem unknown_mode_is_artistic:
  assumes "mode \<notin> {''realistic'', ''logarithmic'', ''artistic''}"
  shows "scale_mode (SolarSystem_init mode rng) = mode
       \<and> get_scaled_radius (SolarSystem_init mode rng) r
           = get_scaled_radius (SolarSystem_init ''artistic'' rng) r
       \<and> get_scaled_distance (SolarSystem_init mode rng) d
           = get_scaled_distance (SolarSystem_init ''artistic'' rng) d
       \<and> main_scale_mode choice \<in> {''realistic'', ''logarithmic'', ''artistic''}
       \<and> (choice \<notin> {''1'', ''2'', ''3''} \<longrightarrow> main_scale_mode choice = ''logarithmic'')"
  using assms
  by (auto simp: get_scaled_radius_def get_scaled_distance_def main_scale_mode_def
      scale_modes_def)

theorem unknown_mode_is_artistic_witness:
  "get_scaled_radius (SolarSystem_init ''cinematic'' rng_zero) 6371
     = get_scaled_radius (SolarSystem_init ''artistic'' rng_zero) 6371
   \<and> get_scaled_distance (SolarSystem_init ''cinematic'' rng_zero) 1
     = get_scaled_distance (SolarSystem_init ''artistic'' rng_zero) 1
   \<and> main_scale_mode ''7'' = ''logarithmic''"
  using unknown_mode_is_artistic [of "''cinematic''" rng_zero 6371 1 "''7''"]
  by simp

section \<open>Speed\<close>

lemma update_speed_fields:
  "time_step (update_speed v val s) = v"
  "update_speed v val s = s\<lparr>time_step := v\<rparr>"
  by (simp_all add: update_speed_def)

text \<open>
  C7. Setting the speed to any value \<open>v\<close> through the slider makes the time step of the
  following updates \<open>v\<close> clamped into \<open>[0.1, 10]\<close>: 0 gives 0.1, 50 gives 10, a value
  inside the range is taken as it is; no value is rejected, and nothing but the time step
  changes. The slider keeps its bounds.
\<close>

theorem set_speed_clamped:
  "time_step (snd (set_speed slider_speed v s)) = max 0.1 (min 10 v)
   \<and> 0.1 \<le> time_step (snd (set_speed slider_speed v s))
   \<and> time_step (snd (set_speed slider_speed v s)) \<le> 10
   \<and> time_step (snd (set_speed slider_speed 0 s)) = 0.1
   \<and> time_step (snd (set_speed slider_speed 50 s)) = 10
   \<and> (0.1 \<le> v \<and> v \<le> 10 \<longrightarrow> time_step (snd (set_speed slider_speed v s)) = v)
   \<and> snd (set_speed slider_speed v s) = s\<lparr>time_step := max 0.1 (min 10 v)\<rparr>
   \<and> valmin (fst (set_speed slider_speed v s)) = 0.1
   \<and> valmax (fst (set_speed slider_speed v s)) = 10"
  by (simp add: set_speed_def slider_request_def slider_speed_def update_speed_fields Let_def)

theorem set_speed_clamped_witness:
  "time_step (snd (set_speed slider_speed 2.5 (SolarSystem_init ''logarithmic'' rng_zero))) = 2.5
   \<and> time_step (snd (set_speed slider_speed 0 (SolarSystem_init ''logarithmic'' rng_zero))) = 0.1
   \<and> time_step (snd (set_speed slider_speed 50 (SolarSystem_init ''logarithmic'' rng_zero))) = 10"
  using set_speed_clamped [of "2.5" "SolarSystem_init ''logarithmic'' rng_zero"]
  by simp

section \<open>The update loop\<close>

lemma update_position_Inr:
  "orbital_period b \<noteq> 0 \<Longrightarrow> \<exists>b'. update_position b dt = Inr (b', position b')"
  by (simp add: update_position_def Let_def)

lemma error_is: "(e :: error) = ZeroDivisionError"
  by (cases e)

lemma update_position_Inl:
  "update_position b dt = Inl ZeroDivisionError \<longleftrightarrow> orbital_period b = 0"
  by (simp add: update_position_def Let_def)

lemma update_position_keeps:
  assumes "update_position b dt = Inr (b', p)"
  shows "name b' = name b" "orbital_period b' = orbital_period b" "p = position b'"
    "distance b' = distance b" "tilt b' = tilt b" "radius b' = radius b" "color b' = color b"
  using assms by (auto simp: update_position_def Let_def split: if_splits)

lemma update_loop_Inl:
  "update_loop dt cap bs tr = Inl ZeroDivisionError \<longleftrightarrow> (\<exists>b\<in>set bs. orbital_period b = 0)"
proof (induction bs arbitrary: tr)
  case Nil
  then show ?case by simp
next
  case (Cons b bs)
  show ?case
  proof (cases "orbital_period b = 0")
    case True
    then have "update_position b dt = Inl ZeroDivisionError" by (simp add: update_position_Inl)
    then show ?thesis using True by simp
  next
    case False
    then obtain b' where up: "update_position b dt = Inr (b', position b')"
      using update_position_Inr by blast
    define tr1 where "tr1 = (case tr (name b') of None \<Rightarrow> tr
                 | Some trail \<Rightarrow> tr(name b' \<mapsto> trail_append cap trail (position b')))"
    have step: "update_loop dt cap (b # bs) tr =
        (case update_loop dt cap bs tr1 of Inl e \<Rightarrow> Inl e
         | Inr (rest', tr'') \<Rightarrow> Inr (b' # rest', tr''))"
      using up by (simp add: tr1_def)
    show ?thesis
    proof (cases "update_loop dt cap bs tr1")
      case (Inl e)
      then have "update_loop dt cap bs tr1 = Inl ZeroDivisionError" using error_is [of e] by simp
      then show ?thesis using step Cons.IH [of tr1] by simp
    next
      case (Inr r)
      then have "update_loop dt cap bs tr1 \<noteq> Inl ZeroDivisionError" by simp
      then show ?thesis using step Inr False Cons.IH [of tr1] by (simp split: prod.splits)
    qed
  qed
qed

lemma update_loop_keeps:
  "update_loop dt cap bs tr = Inr (bs', tr') \<Longrightarrow>
     map name bs' = map name bs \<and> map orbital_period bs' = map orbital_period bs \<and> dom tr' = dom tr"
proof (induction bs arbitrary: tr bs' tr')
  case Nil
  then show ?case by simp
next
  case (Cons b bs)
  from Cons.prems obtain b' p rest' tr1 where
    up: "update_position b dt = Inr (b', p)" and
    tr1: "tr1 = (case tr (name b') of None \<Rightarrow> tr
                 | Some trail \<Rightarrow> tr(name b' \<mapsto> trail_append cap trail (position b')))" and
    rest: "update_loop dt cap bs tr1 = Inr (rest', tr')" and bs': "bs' = b' # rest'"
    by (auto simp: Let_def split: sum.splits prod.splits)
  have "dom tr1 = dom tr" using tr1 by (auto split: option.splits)
  with Cons.IH [OF rest] update_position_keeps [OF up] bs' show ?case by simp
qed

lemma update_loop_bounded:
  "update_loop dt cap bs tr = Inr (bs', tr') \<Longrightarrow> (\<And>nm t. tr nm = Some t \<Longrightarrow> length t \<le> cap)
     \<Longrightarrow> tr' nm = Some t \<Longrightarrow> length t \<le> cap"
proof (induction bs arbitrary: tr bs' tr')
  case Nil
  then show ?case by simp
next
  case (Cons b bs)
  from Cons.prems(1) obtain b' p rest' tr1 where
    up: "update_position b dt = Inr (b', p)" and
    tr1: "tr1 = (case tr (name b') of None \<Rightarrow> tr
                 | Some trail \<Rightarrow> tr(name b' \<mapsto> trail_append cap trail (position b')))" and
    rest: "update_loop dt cap bs tr1 = Inr (rest', tr')" and bs': "bs' = b' # rest'"
    by (auto simp: Let_def split: sum.splits prod.splits)
  have "\<And>nm t. tr1 nm = Some t \<Longrightarrow> length t \<le> cap"
    using tr1 Cons.prems(2) by (auto simp: trail_append_def Let_def split: option.splits if_splits)
  from Cons.IH [OF rest this Cons.prems(3)] show ?case .
qed

lemma update_loop_other:
  "update_loop dt cap bs tr = Inr (bs', tr') \<Longrightarrow> nm \<notin> set (map name bs) \<Longrightarrow> tr' nm = tr nm"
proof (induction bs arbitrary: tr bs' tr')
  case Nil
  then show ?case by simp
next
  case (Cons b bs)
  from Cons.prems(1) obtain b' p rest' tr1 where
    up: "update_position b dt = Inr (b', p)" and
    tr1: "tr1 = (case tr (name b') of None \<Rightarrow> tr
                 | Some trail \<Rightarrow> tr(name b' \<mapsto> trail_append cap trail (position b')))" and
    rest: "update_loop dt cap bs tr1 = Inr (rest', tr')" and bs': "bs' = b' # rest'"
    by (auto simp: Let_def split: sum.splits prod.splits)
  have "tr1 nm = tr nm" using tr1 Cons.prems(2) update_position_keeps(1) [OF up]
    by (auto split: option.splits)
  moreover have "tr' nm = tr1 nm" using Cons.IH [OF rest] Cons.prems(2) by simp
  ultimately show ?case by simp
qed

lemma update_loop_push:
  "update_loop dt cap bs tr = Inr (bs', tr') \<Longrightarrow> distinct (map name bs) \<Longrightarrow>
     b' \<in> set bs' \<Longrightarrow> tr (name b') = Some t \<Longrightarrow>
     tr' (name b') = Some (trail_append cap t (position b'))"
proof (induction bs arbitrary: tr bs' tr')
  case Nil
  then show ?case by simp
next
  case (Cons b bs)
  from Cons.prems(1) obtain b1 p rest' tr1 where
    up: "update_position b dt = Inr (b1, p)" and
    tr1: "tr1 = (case tr (name b1) of None \<Rightarrow> tr
                 | Some trail \<Rightarrow> tr(name b1 \<mapsto> trail_append cap trail (position b1)))" and
    rest: "update_loop dt cap bs tr1 = Inr (rest', tr')" and bs': "bs' = b1 # rest'"
    by (auto simp: Let_def split: sum.splits prod.splits)
  have nb1: "name b1 = name b" using update_position_keeps(1) [OF up] .
  have names: "map name rest' = map name bs" using update_loop_keeps [OF rest] by simp
  show ?case
  proof (cases "b' = b1")
    case True
    have "name b1 \<notin> set (map name bs)" using Cons.prems(2) nb1 by simp
    then have "tr' (name b1) = tr1 (name b1)" by (rule update_loop_other [OF rest])
    then show ?thesis using True tr1 Cons.prems(4) by simp
  next
    case False
    then have mem: "b' \<in> set rest'" using Cons.prems(3) bs' by simp
    then have "name b' \<in> set (map name bs)" using names by (metis image_eqI set_map)
    then have "name b' \<noteq> name b1" using Cons.prems(2) nb1 by auto
    then have "tr1 (name b') = Some t" using tr1 Cons.prems(4) by (auto split: option.splits)
    from Cons.IH [OF rest _ mem this] Cons.prems(2) show ?thesis by simp
  qed
qed

lemma update_loop_all2:
  "update_loop dt cap bs tr = Inr (bs', tr') \<Longrightarrow>
     list_all2 (\<lambda>b b'. update_position b dt = Inr (b', position b')) bs bs'"
proof (induction bs arbitrary: tr bs' tr')
  case Nil
  then show ?case by simp
next
  case (Cons b bs)
  from Cons.prems(1) obtain b1 p rest' tr1 where
    up: "update_position b dt = Inr (b1, p)" and
    rest: "update_loop dt cap bs tr1 = Inr (rest', tr')" and bs': "bs' = b1 # rest'"
    by (auto simp: Let_def split: sum.splits prod.splits)
  show ?case using Cons.IH [OF rest] up update_position_keeps(3) [OF up] bs' by simp
qed

section \<open>Construction, updates and runs\<close>

lemma init_fields:
  "bodies (SolarSystem_init mode rng) = fst (initialize_bodies rng)"
  "trails (SolarSystem_init mode rng) = snd (initialize_bodies rng)"
  "paused (SolarSystem_init mode rng) = False"
  "time_step (SolarSystem_init mode rng) = 1"
  "trail_length (SolarSystem_init mode rng) = 100"
  by (simp_all add: SolarSystem_init_def case_prod_beta)

lemma init_bodies:
  "bodies (SolarSystem_init mode rng) =
    [CelestialBody_init ''Sun'' 696000 0 0 ''#FDB813'' 0 (rng 0),
     CelestialBody_init ''Mercury'' 2440 0.39 88 ''#8C7853'' 7.0 (rng 1),
     CelestialBody_init ''Venus'' 6052 0.72 225 ''#FFC649'' 3.4 (rng 2),
     CelestialBody_init ''Earth'' 6371 1.0 365 ''#4169E1'' 0.0 (rng 3),
     CelestialBody_init ''Mars'' 3390 1.52 687 ''#CD5C5C'' 1.9 (rng 4),
     CelestialBody_init ''Jupiter'' 69911 5.20 4333 ''#DAA520'' 1.3 (rng 5),
     CelestialBody_init ''Saturn'' 58232 9.54 10759 ''#F4A460'' 2.5 (rng 6),
     CelestialBody_init ''Uranus'' 25362 19.19 30687 ''#4FD0E0'' 0.8 (rng 7),
     CelestialBody_init ''Neptune'' 24622 30.07 60190 ''#4169E1'' 1.8 (rng 8)]"
  by (simp add: init_fields initialize_bodies_def bodies_data_def Let_def eval_nat_numeral)

lemma init_trails:
  "trails (SolarSystem_init mode rng) nm =
     (if nm \<in> {''Mercury'', ''Venus'', ''Earth'', ''Mars'', ''Jupiter'', ''Saturn'', ''Uranus'', ''Neptune''}
      then Some [] else None)"
  by (simp add: init_fields initialize_bodies_def bodies_data_def Let_def CelestialBody_init_def)


lemma update_paused: "paused s \<Longrightarrow> update s frame = Inr s"
  by (simp add: update_def)

lemma update_Inl:
  "\<not> paused s \<Longrightarrow>
     update s frame = Inl ZeroDivisionError \<longleftrightarrow> (\<exists>b\<in>set (drop 1 (bodies s)). orbital_period b = 0)"
  using update_loop_Inl [of "time_step s" "trail_length s" "drop 1 (bodies s)" "trails s"]
  by (auto simp: update_def error_is [of "x" for x] split: sum.splits)

lemma update_Inr_loop:
  assumes "\<not> paused s" "update s frame = Inr s'"
  obtains bs tr where
    "update_loop (time_step s) (trail_length s) (drop 1 (bodies s)) (trails s) = Inr (bs, tr)"
    "s' = s\<lparr>bodies := take 1 (bodies s) @ bs, trails := tr\<rparr>"
  using assms by (auto simp: update_def split: sum.splits)

lemma update_total:
  assumes "list_all (\<lambda>b. orbital_period b \<noteq> 0) (drop 1 (bodies s))"
  shows "\<exists>s'. update s frame = Inr s'"
proof (cases "paused s")
  case True
  then show ?thesis by (simp add: update_paused)
next
  case False
  have "update s frame \<noteq> Inl ZeroDivisionError"
    using assms update_Inl [OF False, of frame] by (auto simp: list_all_iff)
  then show ?thesis using error_is by (cases "update s frame") auto
qed

lemma update_keeps:
  assumes "update s frame = Inr s'"
  shows "take 1 (bodies s') = take 1 (bodies s)"
    "map name (bodies s') = map name (bodies s)"
    "map orbital_period (bodies s') = map orbital_period (bodies s)"
    "dom (trails s') = dom (trails s)"
    "paused s' = paused s" "time_step s' = time_step s"
    "trail_length s' = trail_length s" "scale_mode s' = scale_mode s"
proof -
  have "take 1 (bodies s') = take 1 (bodies s)
    \<and> map name (bodies s') = map name (bodies s)
    \<and> map orbital_period (bodies s') = map orbital_period (bodies s)
    \<and> dom (trails s') = dom (trails s)
    \<and> paused s' = paused s \<and> time_step s' = time_step s
    \<and> trail_length s' = trail_length s \<and> scale_mode s' = scale_mode s"
  proof (cases "paused s")
    case True
    then show ?thesis using assms by (simp add: update_paused)
  next
    case False
    from update_Inr_loop [OF False assms] obtain bs tr where
      l: "update_loop (time_step s) (trail_length s) (drop 1 (bodies s)) (trails s) = Inr (bs, tr)"
      and s': "s' = s\<lparr>bodies := take 1 (bodies s) @ bs, trails := tr\<rparr>" by blast
    have k: "map name bs = map name (drop 1 (bodies s))"
      "map orbital_period bs = map orbital_period (drop 1 (bodies s))" "dom tr = dom (trails s)"
      using update_loop_keeps [OF l] by simp_all
    have "map name (take 1 (bodies s) @ bs) = map name (take 1 (bodies s) @ drop 1 (bodies s))"
      by (simp only: map_append k(1))
    then have "map name (take 1 (bodies s) @ bs) = map name (bodies s)"
      by (simp only: append_take_drop_id)
    moreover have "map orbital_period (take 1 (bodies s) @ bs)
                   = map orbital_period (take 1 (bodies s) @ drop 1 (bodies s))"
      by (simp only: map_append k(2))
    then have "map orbital_period (take 1 (bodies s) @ bs) = map orbital_period (bodies s)"
      by (simp only: append_take_drop_id)
    moreover have "length bs = length (drop 1 (bodies s))"
      using k(1) by (metis length_map)
    then have "take 1 (take 1 (bodies s) @ bs) = take 1 (bodies s)"
      by (cases "bodies s") simp_all
    ultimately show ?thesis using s' k(3) by (simp del: map_append take_append)
  qed
  then show "take 1 (bodies s') = take 1 (bodies s)"
    "map name (bodies s') = map name (bodies s)"
    "map orbital_period (bodies s') = map orbital_period (bodies s)"
    "dom (trails s') = dom (trails s)"
    "paused s' = paused s" "time_step s' = time_step s"
    "trail_length s' = trail_length s" "scale_mode s' = scale_mode s"
    by simp_all
qed

lemma periods_nonzero_iff:
  "list_all (\<lambda>b. orbital_period b \<noteq> 0) bs \<longleftrightarrow> 0 \<notin> set (map orbital_period bs)"
  by (induction bs) auto

lemma update_drop_periods:
  assumes "update s frame = Inr s'"
  shows "list_all (\<lambda>b. orbital_period b \<noteq> 0) (drop 1 (bodies s'))
         \<longleftrightarrow> list_all (\<lambda>b. orbital_period b \<noteq> 0) (drop 1 (bodies s))"
proof -
  have "map orbital_period (drop 1 (bodies s')) = map orbital_period (drop 1 (bodies s))"
    using update_keeps(3) [OF assms] by (simp only: drop_map [symmetric])
  then show ?thesis by (simp only: periods_nonzero_iff)
qed

lemma update_bounded:
  assumes "update s frame = Inr s'"
    and "\<And>nm t. trails s nm = Some t \<Longrightarrow> length t \<le> trail_length s"
    and "trails s' nm = Some t"
  shows "length t \<le> trail_length s"
proof (cases "paused s")
  case True
  then show ?thesis using assms by (simp add: update_paused)
next
  case False
  from update_Inr_loop [OF False assms(1)] obtain bs tr where
    l: "update_loop (time_step s) (trail_length s) (drop 1 (bodies s)) (trails s) = Inr (bs, tr)"
    and s': "s' = s\<lparr>bodies := take 1 (bodies s) @ bs, trails := tr\<rparr>" by blast
  have "tr nm = Some t" using assms(3) s' by simp
  from update_loop_bounded [OF l assms(2) this] show ?thesis .
qed

lemma update_invariant:
  assumes "run_invariant sun s" "update s frame = Inr s'"
  shows "run_invariant sun s'"
proof -
  have "trails s' ''Sun'' = None"
    using update_keeps(4) [OF assms(2)] assms(1) by (metis domIff run_invariant_def)
  moreover have "\<forall>nm t. trails s' nm = Some t \<longrightarrow> length t \<le> trail_length s'"
    using update_bounded [OF assms(2)] assms(1) update_keeps(7) [OF assms(2)]
    by (simp add: run_invariant_def)
  ultimately show ?thesis
    using assms(1) update_keeps(1) [OF assms(2)] update_drop_periods [OF assms(2)]
    by (simp add: run_invariant_def)
qed

lemma handle_event_invariant:
  assumes "run_invariant sun s"
  shows "\<exists>s'. handle_event s e = Inr s' \<and> run_invariant sun s'"
proof (cases e)
  case (Frame frame)
  obtain s' where "update s frame = Inr s'"
    using update_total [of s frame] assms by (auto simp: run_invariant_def)
  then show ?thesis using Frame update_invariant [OF assms] by simp
next
  case PauseClicked
  then show ?thesis using assms by (simp add: run_invariant_def toggle_pause_def)
next
  case (SpeedChanged v)
  then show ?thesis using assms by (simp add: run_invariant_def update_speed_def)
qed

lemma run_invariant_kept:
  "run_invariant sun s \<Longrightarrow> \<exists>s'. run s es = Inr s' \<and> run_invariant sun s'"
proof (induction es arbitrary: s)
  case Nil
  then show ?case by simp
next
  case (Cons e es)
  from handle_event_invariant [OF Cons.prems, of e] obtain s1 where
    "handle_event s e = Inr s1" "run_invariant sun s1" by blast
  then show ?case using Cons.IH [of s1] by simp
qed

lemma init_invariant:
  "run_invariant (CelestialBody_init ''Sun'' 696000 0 0 ''#FDB813'' 0 (rng 0)) (SolarSystem_init mode rng)"
  by (simp add: run_invariant_def init_bodies init_trails CelestialBody_init_def)

lemma list_all2_member:
  "list_all2 P xs ys \<Longrightarrow> y \<in> set ys \<Longrightarrow> \<exists>x\<in>set xs. P x y"
  by (induction rule: list_all2_induct) auto

lemma update_push:
  assumes "\<not> paused s" "update s frame = Inr s'" "distinct (map name (drop 1 (bodies s)))"
    "b' \<in> set (drop 1 (bodies s'))" "trails s (name b') = Some t"
  shows "trails s' (name b') = Some (trail_append (trail_length s) t (position b'))"
    and "\<exists>b\<in>set (drop 1 (bodies s)). update_position b (time_step s) = Inr (b', position b')"
proof -
  from update_Inr_loop [OF assms(1,2)] obtain bs tr where
    l: "update_loop (time_step s) (trail_length s) (drop 1 (bodies s)) (trails s) = Inr (bs, tr)"
    and s': "s' = s\<lparr>bodies := take 1 (bodies s) @ bs, trails := tr\<rparr>" by blast
  have "length bs = length (drop 1 (bodies s))"
    using update_loop_keeps [OF l] by (metis length_map)
  then have d: "drop 1 (bodies s') = bs" using s' by (cases "bodies s") simp_all
  then have mem: "b' \<in> set bs" using assms(4) by simp
  from update_loop_push [OF l assms(3) mem assms(5)] s'
  show "trails s' (name b') = Some (trail_append (trail_length s) t (position b'))" by simp
  from list_all2_member [OF update_loop_all2 [OF l] mem]
  show "\<exists>b\<in>set (drop 1 (bodies s)). update_position b (time_step s) = Inr (b', position b')" .
qed

lemma trail_pushes_Cons:
  "trail_pushes cap t (p # ps) = trail_pushes cap (trail_append cap t p) ps"
  by (simp add: trail_pushes_def)

lemma updates_trail:
  assumes "\<not> paused s" "distinct (map name (drop 1 (bodies s)))"
    "list_all (\<lambda>b. orbital_period b \<noteq> 0) (drop 1 (bodies s))"
    "1 \<le> i" "i < length (bodies s)" "trails s (name (bodies s ! i)) = Some t"
  shows "\<exists>s'. updates s frames = Inr s'
           \<and> trails s' (name (bodies s ! i))
               = Some (trail_pushes (trail_length s) t (position_history s frames i))
           \<and> length (position_history s frames i) = length frames"
  using assms
proof (induction frames arbitrary: s t)
  case Nil
  then show ?case by (simp add: trail_pushes_def)
next
  case (Cons f fs)
  from update_total [OF Cons.prems(3), of f] obtain s1 where u: "update s f = Inr s1" by blast
  note k = update_keeps [OF u]
  have len: "length (bodies s1) = length (bodies s)" using k(2) by (metis length_map)
  have nm: "name (bodies s1 ! i) = name (bodies s ! i)"
    using k(2) Cons.prems(5) len by (metis nth_map)
  have mem: "bodies s1 ! i \<in> set (drop 1 (bodies s1))"
    using Cons.prems(4,5) len by (auto simp: in_set_conv_nth intro!: exI [of _ "i - 1"])
  have t1: "trails s1 (name (bodies s ! i))
              = Some (trail_append (trail_length s) t (position (bodies s1 ! i)))"
    using update_push(1) [OF Cons.prems(1) u Cons.prems(2) mem] Cons.prems(6) nm by simp
  have "\<exists>s'. updates s1 fs = Inr s'
           \<and> trails s' (name (bodies s1 ! i))
               = Some (trail_pushes (trail_length s1)
                         (trail_append (trail_length s) t (position (bodies s1 ! i)))
                         (position_history s1 fs i))
           \<and> length (position_history s1 fs i) = length fs"
  proof (rule Cons.IH)
    show "\<not> paused s1" using k(5) Cons.prems(1) by simp
    show "distinct (map name (drop 1 (bodies s1)))"
      using k(2) Cons.prems(2) by (simp only: drop_map [symmetric])
    show "list_all (\<lambda>b. orbital_period b \<noteq> 0) (drop 1 (bodies s1))"
      using update_drop_periods [OF u] Cons.prems(3) by simp
    show "1 \<le> i" by fact
    show "i < length (bodies s1)" using len Cons.prems(5) by simp
    show "trails s1 (name (bodies s1 ! i))
            = Some (trail_append (trail_length s) t (position (bodies s1 ! i)))"
      using t1 nm by simp
  qed
  then show ?case using u nm k(7) by (simp add: trail_pushes_Cons)
qed

lemma init_distinct: "distinct (map name (drop 1 (bodies (SolarSystem_init mode rng))))"
  by (simp add: init_bodies CelestialBody_init_def)

lemma init_periods_nonzero:
  "list_all (\<lambda>b. orbital_period b \<noteq> 0) (drop 1 (bodies (SolarSystem_init mode rng)))"
  by (simp add: init_bodies CelestialBody_init_def)

lemma init_unpaused: "\<not> paused (SolarSystem_init mode rng)"
  by (simp add: init_fields)

lemma init_trail_length: "trail_length (SolarSystem_init mode rng) = 100"
  by (simp add: init_fields)

lemma init_length: "length (bodies (SolarSystem_init mode rng)) = 9"
  by (simp add: init_bodies)

lemma init_planet_trail:
  assumes "1 \<le> i" "i \<le> 8"
  shows "trails (SolarSystem_init mode rng) (name (bodies (SolarSystem_init mode rng) ! i)) = Some []"
proof -
  have "i \<in> {1, 2, 3, 4, 5, 6, 7, 8}" using assms by auto
  then show ?thesis
    by (auto simp: init_trails init_bodies CelestialBody_init_def)
qed

lemma update_nth:
  assumes "\<not> paused s" "update s frame = Inr s'" "1 \<le> i" "i < length (bodies s)"
  shows "update_position (bodies s ! i) (time_step s) = Inr (bodies s' ! i, position (bodies s' ! i))"
proof -
  from update_Inr_loop [OF assms(1,2)] obtain bs tr where
    l: "update_loop (time_step s) (trail_length s) (drop 1 (bodies s)) (trails s) = Inr (bs, tr)"
    and s': "s' = s\<lparr>bodies := take 1 (bodies s) @ bs, trails := tr\<rparr>" by blast
  note a = update_loop_all2 [OF l]
  have len: "length bs = length (bodies s) - 1" using list_all2_lengthD [OF a] by simp
  have i: "i - 1 < length (drop 1 (bodies s))" using assms(3,4) by simp
  have "bodies s' ! i = bs ! (i - 1)"
    using s' assms(3,4) by (cases "bodies s") (simp_all add: nth_append nth_Cons')
  moreover have "drop 1 (bodies s) ! (i - 1) = bodies s ! i" using assms(3,4) by simp
  ultimately show ?thesis using list_all2_nthD [OF a i] by simp
qed

lemma handle_event_keeps:
  assumes "handle_event s e = Inr s'"
  shows "map name (bodies s') = map name (bodies s) \<and> dom (trails s') = dom (trails s)
       \<and> trail_length s' = trail_length s \<and> scale_mode s' = scale_mode s"
proof (cases e)
  case (Frame frame)
  then show ?thesis using assms update_keeps [of s frame s'] by simp
next
  case PauseClicked
  then show ?thesis using assms by (auto simp: toggle_pause_def)
next
  case (SpeedChanged v)
  then show ?thesis using assms by (auto simp: update_speed_def)
qed

lemma run_keeps:
  "run s es = Inr s' \<Longrightarrow>
     map name (bodies s') = map name (bodies s) \<and> dom (trails s') = dom (trails s)
     \<and> trail_length s' = trail_length s \<and> scale_mode s' = scale_mode s"
proof (induction es arbitrary: s)
  case Nil
  then show ?case by simp
next
  case (Cons e es)
  from Cons.prems obtain s1 where h: "handle_event s e = Inr s1" and r: "run s1 es = Inr s'"
    by (auto split: sum.splits)
  show ?case using Cons.IH [OF r] handle_event_keeps [OF h] by simp
qed

lemma init_time_step: "time_step (SolarSystem_init mode rng) = 1"
  by (simp add: init_fields)

lemma log10_11_gt: "1 < log 10 (11::real)"
  by simp

lemma cos_mercury_pos: "0 < cos (2 * pi / 88)"
proof (rule cos_gt_zero_pi)
  show "- (pi / 2) < 2 * pi / 88" using pi_gt_zero by linarith
  show "2 * pi / 88 < pi / 2" using pi_gt_zero by linarith
qed

section \<open>Trails\<close>

lemma trail_append_drop:
  "length t \<le> cap \<Longrightarrow> trail_append cap t p = drop (Suc (length t) - cap) (t @ [p])"
  by (cases t) (auto simp: trail_append_def Let_def Suc_diff_le)

lemma trail_append_length: "length t \<le> cap \<Longrightarrow> length (trail_append cap t p) \<le> cap"
  by (auto simp: trail_append_def Let_def)

lemma trail_pushes_drop:
  "length t \<le> cap \<Longrightarrow> trail_pushes cap t ps = drop (length t + length ps - cap) (t @ ps)"
proof (induction ps arbitrary: t)
  case Nil
  then show ?case by (simp add: trail_pushes_def)
next
  case (Cons p ps)
  have le: "length (trail_append cap t p) \<le> cap" using Cons.prems by (rule trail_append_length)
  have "trail_pushes cap t (p # ps) = trail_pushes cap (trail_append cap t p) ps"
    by (simp add: trail_pushes_def)
  also have "\<dots> = drop (length (trail_append cap t p) + length ps - cap) (trail_append cap t p @ ps)"
    using Cons.IH [OF le] .
  also have "\<dots> = drop (length t + length (p # ps) - cap) (t @ p # ps)"
  proof (cases "length t < cap")
    case True
    then have "trail_append cap t p = t @ [p]" by (simp add: trail_append_def Let_def)
    then show ?thesis by simp
  next
    case False
    with Cons.prems have eq: "length t = cap" by simp
    then have "trail_append cap t p = tl (t @ [p])" by (simp add: trail_append_def Let_def)
    moreover have "length (tl (t @ [p])) = cap" using eq by simp
    moreover have "length t + length (p # ps) - cap = Suc (length ps)" using eq by simp
    moreover have "drop (Suc (length ps)) (t @ p # ps) = drop (length ps) (tl (t @ [p]) @ ps)"
      by (cases t) (simp_all add: drop_Suc)
    ultimately show ?thesis by simp
  qed
  finally show ?case .
qed

text \<open>
  C3. Pushing a sequence \<open>ps\<close> of points into an empty trail of capacity \<open>cap\<close>: when
  more than \<open>cap\<close> points are pushed the trail has exactly \<open>cap\<close> entries, the last
  \<open>cap\<close> points in the order they were pushed, oldest first; its length never exceeds
  \<open>cap\<close>. In a constructed system the capacity is 100; after any number of calls of
  \<open>update\<close> the trail of each of the eight bodies after the first is the result of
  pushing the positions the body took in these calls, at most 100 long, and after more
  than 100 calls it is exactly the last 100 of these positions; after any run of frames,
  pause clicks and speed changes no trail is longer than 100.
\<close>

theorem trail_buffer_fifo:
  fixes ps :: "vec3 list" and mode :: string and rng :: "nat \<Rightarrow> real"
    and frames :: "nat list" and i :: nat
  defines "s0 \<equiv> SolarSystem_init mode rng"
  defines "hist \<equiv> position_history s0 frames i"
  shows "(cap < length ps \<longrightarrow>
            trail_pushes cap [] ps = drop (length ps - cap) ps
            \<and> length (trail_pushes cap [] ps) = cap)
       \<and> length (trail_pushes cap [] ps) \<le> cap
       \<and> trail_length s0 = 100
       \<and> (1 \<le> i \<and> i \<le> 8 \<longrightarrow>
            (\<exists>s' t. updates s0 frames = Inr s'
                \<and> trails s' (name (bodies s0 ! i)) = Some t
                \<and> t = trail_pushes 100 [] hist
                \<and> length hist = length frames
                \<and> length t \<le> 100
                \<and> (100 < length frames \<longrightarrow>
                      length t = 100 \<and> t = drop (length frames - 100) hist)))
       \<and> (run s0 events = Inr s \<and> trails s nm = Some t' \<longrightarrow> length t' \<le> 100)"
proof -
  have sys: "\<exists>s' t. updates s0 frames = Inr s'
                \<and> trails s' (name (bodies s0 ! i)) = Some t
                \<and> t = trail_pushes 100 [] hist
                \<and> length hist = length frames
                \<and> length t \<le> 100
                \<and> (100 < length frames \<longrightarrow>
                      length t = 100 \<and> t = drop (length frames - 100) hist)"
    if i: "1 \<le> i" "i \<le> 8"
  proof -
    have "\<exists>s'. updates s0 frames = Inr s'
                \<and> trails s' (name (bodies s0 ! i)) = Some (trail_pushes 100 [] hist)
                \<and> length hist = length frames"
      using updates_trail [OF init_unpaused init_distinct init_periods_nonzero i(1) _
          init_planet_trail [OF i], of mode rng frames] i(2)
      by (simp add: init_length init_trail_length s0_def hist_def)
    then obtain s' where s': "updates s0 frames = Inr s'"
      "trails s' (name (bodies s0 ! i)) = Some (trail_pushes 100 [] hist)"
      "length hist = length frames" by blast
    have "length (trail_pushes 100 [] hist) \<le> 100" by (simp add: trail_pushes_drop)
    moreover have "100 < length frames \<longrightarrow> length (trail_pushes 100 [] hist) = 100
        \<and> trail_pushes 100 [] hist = drop (length frames - 100) hist"
      using s'(3) by (simp add: trail_pushes_drop)
    ultimately show ?thesis using s' by blast
  qed
  have bounded: "length t' \<le> 100" if r: "run s0 events = Inr s" "trails s nm = Some t'"
  proof -
    let ?sun = "CelestialBody_init ''Sun'' 696000 0 0 ''#FDB813'' 0 (rng 0)"
    have "run_invariant ?sun s"
      using run_invariant_kept [OF init_invariant, of mode rng events] r(1) by (simp add: s0_def)
    moreover have "trail_length s = 100"
      using run_keeps [OF r(1)] by (simp add: s0_def init_trail_length)
    ultimately show ?thesis using r(2) by (simp add: run_invariant_def)
  qed
  show ?thesis
    using sys bounded by (simp add: trail_pushes_drop init_trail_length s0_def)
qed

theorem trail_buffer_fifo_witness:
  "trail_pushes 2 [] [(1, 0, 0), (2, 0, 0), (3, 0, 0)] = [(2, 0, 0), (3, 0, 0)]
   \<and> (\<exists>s' t. updates (SolarSystem_init ''logarithmic'' rng_zero) [0, 1, 2] = Inr s'
        \<and> trails s' ''Earth'' = Some t
        \<and> t = trail_pushes 100 []
                (position_history (SolarSystem_init ''logarithmic'' rng_zero) [0, 1, 2] 3)
        \<and> length t \<le> 100)
   \<and> (\<exists>s t. run (SolarSystem_init ''logarithmic'' rng_zero) [Frame 0, PauseClicked, Frame 1] = Inr s
        \<and> trails s ''Earth'' = Some t \<and> length t \<le> 100)"
proof -
  let ?s0 = "SolarSystem_init ''logarithmic'' rng_zero"
  have n: "name (bodies ?s0 ! 3) = ''Earth''"
    by (simp add: init_bodies CelestialBody_init_def)
  let ?es = "[Frame 0, PauseClicked, Frame 1]"
  obtain s where s: "run ?s0 ?es = Inr s"
    using run_invariant_kept [OF init_invariant] by blast
  have "''Earth'' \<in> dom (trails ?s0)" by (simp add: init_trails dom_def)
  then obtain t where t: "trails s ''Earth'' = Some t" using run_keeps [OF s] by auto
  note T = trail_buffer_fifo
    [of 2 "[(1, 0, 0), (2, 0, 0), (3, 0, 0)]" "''logarithmic''" rng_zero 3 "[0, 1, 2]" ?es s
        "''Earth''" t]
  have "trail_pushes 2 [] [(1, 0, 0), (2, 0, 0), (3, 0, 0)] = [(2, 0, 0), (3, 0, 0 :: real)]"
    using T [THEN conjunct1] by simp
  moreover have "\<exists>s' t. updates ?s0 [0, 1, 2] = Inr s'
        \<and> trails s' ''Earth'' = Some t
        \<and> t = trail_pushes 100 [] (position_history ?s0 [0, 1, 2] 3)
        \<and> length t \<le> 100"
  proof -
    have i: "1 \<le> (3::nat) \<and> (3::nat) \<le> 8" by simp
    show ?thesis
      using T [THEN conjunct2, THEN conjunct2, THEN conjunct2, THEN conjunct1, rule_format, OF i]
      unfolding n by blast
  qed
  moreover have "length t \<le> 100"
    using T [THEN conjunct2, THEN conjunct2, THEN conjunct2, THEN conjunct2] s t by blast
  ultimately show ?thesis using s t by blast
qed

section \<open>What a trail stores\<close>

text \<open>
  C4, as stated: the point pushed into a trail is the position scaled for display. It is
  not: after the first call of \<open>update\<close> on the system constructed in mode
  \<open>logarithmic\<close>, the trail of \<open>Mercury\<close> holds the position of the body as
  \<open>update_position\<close> computed it, and the position scaled as \<open>draw_frame\<close> scales it
  (by \<open>3 * log10 11\<close>) is a different point.
\<close>

theorem trail_point_not_scaled:
  "(case update (SolarSystem_init ''logarithmic'' rng_zero) 0 of
      Inl e \<Rightarrow> False
    | Inr s' \<Rightarrow>
        trails s' ''Mercury'' = Some [position (bodies s' ! 1)]
        \<and> position (bodies s' ! 1)
            = (0.39 * cos (2 * pi / 88),
               0.39 * sin (2 * pi / 88) * cos (np_radians 7),
               0.39 * sin (2 * pi / 88) * sin (np_radians 7))
        \<and> scaled_pos s' (position (bodies s' ! 1))
            = Inr (0.39 * cos (2 * pi / 88) * (log 10 11 * 3),
                   0.39 * sin (2 * pi / 88) * cos (np_radians 7) * (log 10 11 * 3),
                   0.39 * sin (2 * pi / 88) * sin (np_radians 7) * (log 10 11 * 3))
        \<and> scaled_pos s' (position (bodies s' ! 1)) \<noteq> Inr (position (bodies s' ! 1)))"
proof -
  let ?s0 = "SolarSystem_init ''logarithmic'' rng_zero"
  obtain s' where u: "update ?s0 0 = Inr s'"
    using update_total [OF init_periods_nonzero] by blast
  have np: "\<not> paused ?s0" by (rule init_unpaused)
  have up: "update_position (bodies ?s0 ! 1) (time_step ?s0)
              = Inr (bodies s' ! 1, position (bodies s' ! 1))"
    by (rule update_nth [OF np u]) (simp_all add: init_length)
  have pos: "position (bodies s' ! 1)
            = (0.39 * cos (2 * pi / 88),
               0.39 * sin (2 * pi / 88) * cos (np_radians 7),
               0.39 * sin (2 * pi / 88) * sin (np_radians 7))"
    using up
    by (simp add: init_bodies init_time_step update_position_def
        CelestialBody_init_def Let_def np_random_uniform_def rng_zero_def)
  have nm: "name (bodies s' ! 1) = ''Mercury''"
    using update_position_keeps(1) [OF up] by (simp add: init_bodies CelestialBody_init_def)
  have len': "length (bodies s') = 9"
    using update_keeps(2) [OF u] init_length [of "''logarithmic''" rng_zero] by (metis length_map)
  have mem: "bodies s' ! 1 \<in> set (drop 1 (bodies s'))"
    using len' by (auto simp: in_set_conv_nth intro!: exI [of _ 0])
  have tr: "trails s' ''Mercury'' = Some [position (bodies s' ! 1)]"
    using update_push(1) [OF np u init_distinct mem, of "[]"] nm
    by (simp add: init_trails init_trail_length trail_append_def)
  have sm: "scale_mode s' = ''logarithmic''"
    using update_keeps(8) [OF u] by simp
  have k: "get_scaled_distance s' 1 = Inr (log 10 11 * 3)"
    using sm by (simp add: get_scaled_distance_def np_log10_def)
  have sc: "scaled_pos s' (position (bodies s' ! 1))
            = Inr (0.39 * cos (2 * pi / 88) * (log 10 11 * 3),
                   0.39 * sin (2 * pi / 88) * cos (np_radians 7) * (log 10 11 * 3),
                   0.39 * sin (2 * pi / 88) * sin (np_radians 7) * (log 10 11 * 3))"
    unfolding pos by (simp add: scaled_pos_def k)
  have "0.39 * cos (2 * pi / 88) * (log 10 11 * 3) \<noteq> 0.39 * cos (2 * pi / 88)"
  proof -
    have "3 * log 10 11 \<noteq> (1::real)" using log10_11_gt by linarith
    then show ?thesis using cos_mercury_pos by simp
  qed
  note x = this
  have ne: "scaled_pos s' (position (bodies s' ! 1)) \<noteq> Inr (position (bodies s' ! 1))"
  proof
    assume "scaled_pos s' (position (bodies s' ! 1)) = Inr (position (bodies s' ! 1))"
    then have "Inr (position (bodies s' ! 1))
                 = (Inr (0.39 * cos (2 * pi / 88) * (log 10 11 * 3),
                   0.39 * sin (2 * pi / 88) * cos (np_radians 7) * (log 10 11 * 3),
                   0.39 * sin (2 * pi / 88) * sin (np_radians 7) * (log 10 11 * 3))
                    :: nonreal + vec3)"
      using sc by simp
    then have "0.39 * cos (2 * pi / 88) * (log 10 11 * 3) = 0.39 * cos (2 * pi / 88)"
      unfolding pos by simp
    with x show False by simp
  qed
  show ?thesis using u tr pos sc ne by simp
qed

text \<open>
  C4, amended. In every state a run of a constructed system reaches, a call of
  \<open>update\<close> that is not paused succeeds and pushes, into the trail of each of the eight
  bodies after the first, the body's position exactly as \<open>update_position\<close> has just
  computed and stored it: the raw position. No scale ratio is applied to what is stored.
\<close>

theorem trail_point_is_raw_position:
  assumes "run (SolarSystem_init mode rng) events = Inr s" "\<not> paused s" "1 \<le> i" "i \<le> 8"
  shows "\<exists>s' t. update s frame = Inr s'
           \<and> trails s (name (bodies s ! i)) = Some t
           \<and> update_position (bodies s ! i) (time_step s)
               = Inr (bodies s' ! i, position (bodies s' ! i))
           \<and> trails s' (name (bodies s ! i)) = Some (trail_append 100 t (position (bodies s' ! i)))"
proof -
  let ?s0 = "SolarSystem_init mode rng"
  let ?sun = "CelestialBody_init ''Sun'' 696000 0 0 ''#FDB813'' 0 (rng 0)"
  note k = run_keeps [OF assms(1)]
  have names: "map name (bodies s) = map name (bodies ?s0)" using k by simp
  then have len: "length (bodies s) = 9" using init_length [of mode rng] by (metis length_map)
  have i: "i < length (bodies s)" using assms(4) len by simp
  have nm: "name (bodies s ! i) = name (bodies ?s0 ! i)"
    using names i len init_length [of mode rng] by (metis nth_map)
  have "name (bodies s ! i) \<in> dom (trails ?s0)"
    using init_planet_trail [OF assms(3,4), of mode rng] nm by auto
  then obtain t where t: "trails s (name (bodies s ! i)) = Some t" using k by auto
  have inv: "run_invariant ?sun s"
    using run_invariant_kept [OF init_invariant, of mode rng events] assms(1) by simp
  then obtain s' where u: "update s frame = Inr s'"
    using update_total [of s frame] by (auto simp: run_invariant_def)
  have d: "distinct (map name (drop 1 (bodies s)))"
    using init_distinct [of mode rng] names by (simp only: drop_map [symmetric])
  note k' = update_keeps [OF u]
  have len': "length (bodies s') = 9" using k'(2) len by (metis length_map)
  have nm': "name (bodies s' ! i) = name (bodies s ! i)"
    using k'(2) i len len' by (metis nth_map)
  have mem: "bodies s' ! i \<in> set (drop 1 (bodies s'))"
    using assms(3,4) len' by (auto simp: in_set_conv_nth intro!: exI [of _ "i - 1"])
  have "trails s' (name (bodies s ! i))
          = Some (trail_append (trail_length s) t (position (bodies s' ! i)))"
    using update_push(1) [OF assms(2) u d mem] t nm' by simp
  moreover have "trail_length s = 100" using k init_trail_length [of mode rng] by simp
  ultimately show ?thesis using u t update_nth [OF assms(2) u assms(3) i] by simp
qed

theorem trail_point_is_raw_position_witness:
  "\<exists>s'. update (SolarSystem_init ''logarithmic'' rng_zero) 0 = Inr s'
      \<and> update_position (bodies (SolarSystem_init ''logarithmic'' rng_zero) ! 3) 1
          = Inr (bodies s' ! 3, position (bodies s' ! 3))
      \<and> trails s' ''Earth'' = Some [position (bodies s' ! 3)]"
proof -
  let ?s0 = "SolarSystem_init ''logarithmic'' rng_zero"
  have r: "run ?s0 [] = Inr ?s0" by simp
  have n: "name (bodies ?s0 ! 3) = ''Earth''" by (simp add: init_bodies CelestialBody_init_def)
  have t: "trails ?s0 ''Earth'' = Some []" by (simp add: init_trails)
  have ts: "time_step ?s0 = 1" by (rule init_time_step)
  from trail_point_is_raw_position [OF r init_unpaused, of 3 0]
  show ?thesis by (auto simp: n t ts trail_append_def)
qed

section \<open>The central body\<close>

text \<open>
  C9. After any sequence of frames, pause clicks and speed changes on a constructed
  system the run has not failed, the first body is still the body constructed from the
  catalogue's first entry (\<open>Sun\<close>, distance 0, period 0) with its starting angle and the
  position \<open>(0, 0, 0)\<close>, and there is no trail under its name.
\<close>

theorem sun_never_advanced:
  "\<exists>s'. run (SolarSystem_init mode rng) events = Inr s'
     \<and> hd (bodies s') = hd (bodies (SolarSystem_init mode rng))
     \<and> name (hd (bodies s')) = ''Sun''
     \<and> distance (hd (bodies s')) = 0
     \<and> orbital_period (hd (bodies s')) = 0
     \<and> angle (hd (bodies s')) = np_random_uniform 0 (2 * pi) (rng 0)
     \<and> position (hd (bodies s')) = (0, 0, 0)
     \<and> trails s' ''Sun'' = None"
proof -
  let ?sun = "CelestialBody_init ''Sun'' 696000 0 0 ''#FDB813'' 0 (rng 0)"
  from run_invariant_kept [OF init_invariant, of mode rng events] obtain s' where
    r: "run (SolarSystem_init mode rng) events = Inr s'" and i: "run_invariant ?sun s'" by blast
  have "take 1 (bodies s') = [?sun]" using i by (simp add: run_invariant_def)
  then have "hd (bodies s') = ?sun" by (cases "bodies s'") simp_all
  moreover have "hd (bodies (SolarSystem_init mode rng)) = ?sun" by (simp add: init_bodies)
  moreover have "trails s' ''Sun'' = None" using i by (simp add: run_invariant_def)
  ultimately show ?thesis using r by (simp add: CelestialBody_init_def)
qed

section \<open>Periods in the catalogue\<close>





section \<open>Starting angles\<close>

lemma init_angles:
  "map angle (bodies (SolarSystem_init mode rng)) = map (\<lambda>k. np_random_uniform 0 (2 * pi) (rng k)) [0..<9]"
proof -
  have "[0..<9] = [0, 1, 2, 3, 4, 5, 6, 7, 8::nat]"
    by (simp add: upt_rec [of _ "numeral n" for n])
  then show ?thesis by (simp add: init_bodies CelestialBody_init_def)
qed

text \<open>
  C10. Every body of a constructed system, the first one included, starts at the angle
  \<open>np.random.uniform(0, 2\<pi>)\<close> of its own sample of the generator; with samples in
  \<open>[0, 1)\<close> every starting angle lies in \<open>[0, 2\<pi>)\<close>. Two constructions from the same
  catalogue and mode whose generators differ at the sample of body \<open>k\<close> give body \<open>k\<close>
  different starting angles: the constructed system is not a function of the catalogue.
\<close>

theorem initial_angles_random:
  "((\<forall>k. 0 \<le> rng k \<and> rng k < 1) \<longrightarrow>
      (\<forall>b\<in>set (bodies (SolarSystem_init mode rng)). 0 \<le> angle b \<and> angle b < 2 * pi))
   \<and> map angle (bodies (SolarSystem_init mode rng))
       = map (\<lambda>k. np_random_uniform 0 (2 * pi) (rng k)) [0..<9]
   \<and> (k < 9 \<and> rng k \<noteq> rng' k \<longrightarrow>
        angle (bodies (SolarSystem_init mode rng) ! k) \<noteq> angle (bodies (SolarSystem_init mode rng') ! k))"
proof (intro conjI impI ballI)
  show a: "map angle (bodies (SolarSystem_init mode rng))
       = map (\<lambda>k. np_random_uniform 0 (2 * pi) (rng k)) [0..<9]" for rng
    by (rule init_angles)
  {
    fix b assume r: "\<forall>k. 0 \<le> rng k \<and> rng k < 1" and b: "b \<in> set (bodies (SolarSystem_init mode rng))"
    then have "angle b \<in> set (map angle (bodies (SolarSystem_init mode rng)))" by simp
    then obtain k where k: "angle b = np_random_uniform 0 (2 * pi) (rng k)"
      unfolding a by auto
    have "0 \<le> rng k" "rng k < 1" using r by simp_all
    then show "0 \<le> angle b" "angle b < 2 * pi"
      unfolding k by (simp_all add: np_random_uniform_def)
  }
  assume h: "k < 9 \<and> rng k \<noteq> rng' k"
  have l: "length (bodies (SolarSystem_init mode r)) = 9" for r by (simp add: init_bodies)
  have "angle (bodies (SolarSystem_init mode r) ! k) = np_random_uniform 0 (2 * pi) (r k)" for r
    using nth_map [of k "bodies (SolarSystem_init mode r)" angle] h l [of r]
    by (simp add: a [of r])
  then show "angle (bodies (SolarSystem_init mode rng) ! k) \<noteq> angle (bodies (SolarSystem_init mode rng') ! k)"
    using h by (simp add: np_random_uniform_def)
qed

theorem initial_angles_random_witness:
  "0 \<le> angle (bodies (SolarSystem_init ''logarithmic'' rng_half) ! 3)
   \<and> angle (bodies (SolarSystem_init ''logarithmic'' rng_half) ! 3) < 2 * pi
   \<and> angle (bodies (SolarSystem_init ''logarithmic'' rng_half) ! 3) = pi
   \<and> angle (bodies (SolarSystem_init ''logarithmic'' rng_zero) ! 3) = 0
   \<and> angle (bodies (SolarSystem_init ''logarithmic'' rng_zero) ! 3)
       \<noteq> angle (bodies (SolarSystem_init ''logarithmic'' rng_half) ! 3)"
proof -
  have m: "bodies (SolarSystem_init ''logarithmic'' rng_half) ! 3
             \<in> set (bodies (SolarSystem_init ''logarithmic'' rng_half))"
    by (rule nth_mem) (simp add: init_length)
  have h: "\<forall>k. 0 \<le> rng_half k \<and> rng_half k < 1" by (simp add: rng_half_def)
  have d: "(3::nat) < 9 \<and> rng_zero 3 \<noteq> rng_half 3" by (simp add: rng_zero_def rng_half_def)
  note T = initial_angles_random [of rng_half "''logarithmic''" 3 rng_zero]
  note U = initial_angles_random [of rng_zero "''logarithmic''" 3 rng_half]
  have "0 \<le> angle (bodies (SolarSystem_init ''logarithmic'' rng_half) ! 3)
        \<and> angle (bodies (SolarSystem_init ''logarithmic'' rng_half) ! 3) < 2 * pi"
    using T h m by blast
  moreover have "angle (bodies (SolarSystem_init ''logarithmic'' rng_zero) ! 3)
       \<noteq> angle (bodies (SolarSystem_init ''logarithmic'' rng_half) ! 3)"
    using U d by blast
  moreover have "angle (bodies (SolarSystem_init ''logarithmic'' rng_half) ! 3) = pi"
    "angle (bodies (SolarSystem_init ''logarithmic'' rng_zero) ! 3) = 0"
    by (simp_all add: init_bodies CelestialBody_init_def np_random_uniform_def rng_half_def rng_zero_def)
  ultimately show ?thesis by simp
qed

end
